theory Spec2Isabelle
  imports Main
begin

section \<open>Python values\<close>

text \<open>
  The relay of \<^verbatim>\<open>github_graphql_mcp_server.py\<close> moves JSON values between its caller and
  the remote endpoint. A value is what \<^verbatim>\<open>json.loads\<close> builds: \<^verbatim>\<open>None\<close>, a \<^verbatim>\<open>bool\<close>, an
  \<^verbatim>\<open>int\<close> (unbounded), a \<^verbatim>\<open>float\<close>, a \<^verbatim>\<open>str\<close>, a \<^verbatim>\<open>list\<close> or a \<^verbatim>\<open>dict\<close> with string keys in
  insertion order. A float is carried by its \<^verbatim>\<open>repr\<close> (no arithmetic is ever done on one), a
  dict by its items in order. Characters are the code points below 256.
\<close>

datatype json =
    JNull
  | JBool bool
  | JInt int
  | JFloat string
  | JStr string
  | JArr "json list"
  | JObj "(string \<times> json) list"

text \<open>
  The exceptions the relay can meet, each with the text \<^verbatim>\<open>str(e)\<close> gives. \<open>RequestError\<close> is
  \<^verbatim>\<open>httpx.RequestError\<close> (connection, DNS and timeout failures are subclasses of it);
  \<open>OtherException\<close> stands for any further subclass of \<^verbatim>\<open>Exception\<close>. The texts of the
  interpreter's own exceptions are those of CPython 3.11 and 3.12.
\<close>

datatype exn =
    RequestError string
  | JSONDecodeError string
  | ValueError string
  | TypeError string
  | KeyError string
  | IndexError string
  | OtherException string

fun exn_str :: "exn \<Rightarrow> string" where
  "exn_str (RequestError d) = d"
| "exn_str (JSONDecodeError d) = d"
| "exn_str (ValueError d) = d"
| "exn_str (TypeError d) = d"
| "exn_str (KeyError d) = d"
| "exn_str (IndexError d) = d"
| "exn_str (OtherException d) = d"

subsection \<open>Text of numbers and strings\<close>

definition hex_digit :: "nat \<Rightarrow> char" where
  "hex_digit d = ''0123456789abcdef'' ! d"

definition hex2 :: "nat \<Rightarrow> string" where
  "hex2 n = [hex_digit (n div 16 mod 16), hex_digit (n mod 16)]"

fun str_nat :: "nat \<Rightarrow> string" where
  "str_nat n = (if n < 10 then [hex_digit n] else str_nat (n div 10) @ [hex_digit (n mod 10)])"

declare str_nat.simps [simp del]

definition str_int :: "int \<Rightarrow> string" where
  "str_int i = (if i < 0 then CHR ''-'' # str_nat (nat (- i)) else str_nat (nat i))"

fun join :: "string \<Rightarrow> string list \<Rightarrow> string" where
  "join sep [] = []"
| "join sep [x] = x"
| "join sep (x # y # ys) = x @ sep @ join sep (y # ys)"

text \<open>
  \<^verbatim>\<open>repr\<close> of a \<^verbatim>\<open>str\<close>: single quotes unless the text has a single quote and no double
  quote; the quote and the backslash are escaped, tab, newline and carriage return are
  written \<^verbatim>\<open>\t \n \r\<close>, and every other unprintable character as \<^verbatim>\<open>\xhh\<close>.
\<close>

definition repr_char :: "char \<Rightarrow> char \<Rightarrow> string" where
  "repr_char q c =
     (let n = (of_char c :: nat) in
      if c = q \<or> c = CHR 0x5C then [CHR 0x5C, c]
      else if c = CHR 0x09 then [CHR 0x5C, CHR ''t'']
      else if c = CHR 0x0A then [CHR 0x5C, CHR ''n'']
      else if c = CHR 0x0D then [CHR 0x5C, CHR ''r'']
      else if n < 32 \<or> n = 127 then [CHR 0x5C, CHR ''x''] @ hex2 n
      else if n < 127 then [c]
      else if n \<le> 160 \<or> n = 173 then [CHR 0x5C, CHR ''x''] @ hex2 n
      else [c])"

definition repr_str :: "string \<Rightarrow> string" where
  "repr_str s =
     (let q = (if CHR 0x27 \<in> set s \<and> CHR 0x22 \<notin> set s
               then CHR 0x22 else CHR 0x27)
      in [q] @ concat (map (repr_char q) s) @ [q])"

fun py_repr :: "json \<Rightarrow> string" where
  "py_repr JNull = ''None''"
| "py_repr (JBool b) = (if b then ''True'' else ''False'')"
| "py_repr (JInt i) = str_int i"
| "py_repr (JFloat r) = r"
| "py_repr (JStr s) = repr_str s"
| "py_repr (JArr xs) = ''['' @ join '', '' (map py_repr xs) @ '']''"
| "py_repr (JObj kvs) =
     ''{'' @ join '', '' (map (\<lambda>kv. repr_str (fst kv) @ '': '' @ py_repr (snd kv)) kvs) @ ''}''"

text \<open>What an f-string field \<^verbatim>\<open>{v}\<close> prints: \<^verbatim>\<open>str(v)\<close>.\<close>

fun py_str :: "json \<Rightarrow> string" where
  "py_str (JStr s) = s"
| "py_str v = py_repr v"

subsection \<open>json.dumps\<close>

text \<open>
  \<^verbatim>\<open>json.dumps\<close> with its defaults: \<^verbatim>\<open>", "\<close> between items, \<^verbatim>\<open>": "\<close> after a key, and
  \<^verbatim>\<open>ensure_ascii\<close>, which escapes every character outside space to tilde.
\<close>

definition escape_char :: "char \<Rightarrow> string" where
  "escape_char c =
     (if c = CHR 0x22 then [CHR 0x5C, CHR 0x22]
      else if c = CHR 0x5C then [CHR 0x5C, CHR 0x5C]
      else if c = CHR 0x0A then [CHR 0x5C, CHR ''n'']
      else if c = CHR 0x0D then [CHR 0x5C, CHR ''r'']
      else if c = CHR 0x09 then [CHR 0x5C, CHR ''t'']
      else if c = CHR 0x0C then [CHR 0x5C, CHR ''f'']
      else if c = CHR 0x08 then [CHR 0x5C, CHR ''b'']
      else if (of_char c :: nat) < 32 \<or> 126 < (of_char c :: nat)
        then [CHR 0x5C, CHR ''u'', CHR ''0'', CHR ''0''] @ hex2 (of_char c)
      else [c])"

definition dumps_str :: "string \<Rightarrow> string" where
  "dumps_str s = [CHR 0x22] @ concat (map escape_char s) @ [CHR 0x22]"

definition dumps_float :: "string \<Rightarrow> string" where
  "dumps_float r =
     (if r = ''nan'' then ''NaN''
      else if r = ''inf'' then ''Infinity''
      else if r = ''-inf'' then ''-Infinity''
      else r)"

fun json_dumps :: "json \<Rightarrow> string" where
  "json_dumps JNull = ''null''"
| "json_dumps (JBool b) = (if b then ''true'' else ''false'')"
| "json_dumps (JInt i) = str_int i"
| "json_dumps (JFloat r) = dumps_float r"
| "json_dumps (JStr s) = dumps_str s"
| "json_dumps (JArr xs) = ''['' @ join '', '' (map json_dumps xs) @ '']''"
| "json_dumps (JObj kvs) =
     ''{'' @ join '', '' (map (\<lambda>kv. dumps_str (fst kv) @ '': '' @ json_dumps (snd kv)) kvs) @ ''}''"

subsection \<open>Membership and subscripting\<close>

definition type_name :: "json \<Rightarrow> string" where
  "type_name v =
     (case v of JNull \<Rightarrow> ''NoneType'' | JBool _ \<Rightarrow> ''bool'' | JInt _ \<Rightarrow> ''int''
      | JFloat _ \<Rightarrow> ''float'' | JStr _ \<Rightarrow> ''str'' | JArr _ \<Rightarrow> ''list'' | JObj _ \<Rightarrow> ''dict'')"

fun substring :: "string \<Rightarrow> string \<Rightarrow> bool" where
  "substring k [] = (k = [])"
| "substring k (c # cs) = (take (length k) (c # cs) = k \<or> substring k cs)"

text \<open>
  \<^verbatim>\<open>key in v\<close> for a string \<open>key\<close>: a key of a dict, an element of a list, a substring of a
  string; on anything else a \<^verbatim>\<open>TypeError\<close>.
\<close>

fun py_contains :: "string \<Rightarrow> json \<Rightarrow> exn + bool" where
  "py_contains key (JObj kvs) = Inr (key \<in> set (map fst kvs))"
| "py_contains key (JArr xs) = Inr (JStr key \<in> set xs)"
| "py_contains key (JStr s) = Inr (substring key s)"
| "py_contains key v =
     Inl (TypeError (''argument of type '' @ [CHR 0x27] @ type_name v @ [CHR 0x27]
            @ '' is not iterable''))"

text \<open>\<^verbatim>\<open>v[key]\<close> for a string \<open>key\<close>.\<close>

fun py_getitem :: "json \<Rightarrow> string \<Rightarrow> exn + json" where
  "py_getitem (JObj kvs) key =
     (case map_of kvs key of None \<Rightarrow> Inl (KeyError (repr_str key)) | Some v \<Rightarrow> Inr v)"
| "py_getitem (JArr xs) key =
     Inl (TypeError ''list indices must be integers or slices, not str'')"
| "py_getitem (JStr s) key =
     Inl (TypeError (''string indices must be integers, not '' @ [CHR 0x27] @ ''str'' @ [CHR 0x27]))"
| "py_getitem v key =
     Inl (TypeError ([CHR 0x27] @ type_name v @ [CHR 0x27] @ '' object is not subscriptable''))"

text \<open>\<^verbatim>\<open>v[0]\<close>. A dict built by \<^verbatim>\<open>json.loads\<close> has string keys only, so \<open>0\<close> is never a key.\<close>

fun py_getitem0 :: "json \<Rightarrow> exn + json" where
  "py_getitem0 (JArr []) = Inl (IndexError ''list index out of range'')"
| "py_getitem0 (JArr (x # xs)) = Inr x"
| "py_getitem0 (JStr []) = Inl (IndexError ''string index out of range'')"
| "py_getitem0 (JStr (c # cs)) = Inr (JStr [c])"
| "py_getitem0 (JObj kvs) = Inl (KeyError ''0'')"
| "py_getitem0 v =
     Inl (TypeError ([CHR 0x27] @ type_name v @ [CHR 0x27] @ '' object is not subscriptable''))"

subsection \<open>int() of a string\<close>

text \<open>
  \<^verbatim>\<open>int(s)\<close>: optional white space, an optional sign, decimal digits with single
  underscores between them, optional white space. Anything else is a \<^verbatim>\<open>ValueError\<close>, as is
  a run of more than 4300 digits (the interpreter's default limit).
\<close>

definition int_space :: "char \<Rightarrow> bool" where
  "int_space c = ((of_char c :: nat) \<in> set [9, 10, 11, 12, 13, 32, 133, 160])"

definition is_digit :: "char \<Rightarrow> bool" where
  "is_digit c = (48 \<le> (of_char c :: nat) \<and> (of_char c :: nat) \<le> 57)"

definition in_run :: "char \<Rightarrow> bool" where
  "in_run c = (is_digit c \<or> c = CHR ''_'')"

fun digit_run :: "string \<Rightarrow> bool" where
  "digit_run [] = False"
| "digit_run [c] = is_digit c"
| "digit_run (c # d # cs) =
     (is_digit c \<and> (if d = CHR ''_'' then digit_run cs else digit_run (d # cs)))"

fun digits_value :: "string \<Rightarrow> nat \<Rightarrow> nat" where
  "digits_value [] acc = acc"
| "digits_value (c # cs) acc =
     (if c = CHR ''_'' then digits_value cs acc
      else digits_value cs (10 * acc + (of_char c - 48)))"

definition int_max_str_digits :: nat where
  "int_max_str_digits = 4300"

definition py_int :: "string \<Rightarrow> exn + int" where
  "py_int s =
     (let invalid = Inl (ValueError (''invalid literal for int() with base 10: ''
                      @ take 200 (repr_str s)));
          s1 = dropWhile int_space s;
          s2 = (if take 1 s1 = ''-'' \<or> take 1 s1 = ''+'' then drop 1 s1 else s1);
          run = takeWhile in_run s2;
          rest = dropWhile in_run s2;
          n = length (filter is_digit run)
      in if \<not> digit_run run then invalid
         else if int_max_str_digits < n
           then Inl (ValueError (''Exceeds the limit (4300 digits) for integer string conversion: value has ''
                  @ str_nat n @ '' digits; use sys.set_int_max_str_digits() to increase the limit''))
         else if dropWhile int_space rest \<noteq> [] then invalid
         else if take 1 s1 = ''-'' then Inr (- int (digits_value run 0))
         else Inr (int (digits_value run 0)))"

section \<open>The remote endpoint and the world\<close>

text \<open>
  What \<^verbatim>\<open>client.post\<close> is given: the URL, the headers, the \<^verbatim>\<open>json=\<close> payload and the
  timeout (\<^verbatim>\<open>30.0\<close>, in seconds).
\<close>

record request =
  url :: string
  req_headers :: "(string \<times> string) list"
  json_payload :: json
  timeout_seconds :: nat

text \<open>
  An \<^verbatim>\<open>httpx.Response\<close> as the relay reads it: \<^verbatim>\<open>status_code\<close>, the header lines,
  \<^verbatim>\<open>text\<close>, and what \<^verbatim>\<open>json()\<close> does on the body (the decoded value, or the exception it
  raises).
\<close>

record response =
  status_code :: nat
  headers :: "(string \<times> string) list"
  body_text :: string
  body_json :: "exn + json"

text \<open>
  The call either returns a response or raises. A deterministic endpoint is a function from
  the request to what the call does.
\<close>

datatype outcome = Responds response | Raises exn

type_synonym remote = "request \<Rightarrow> outcome"

text \<open>
  What leaves the \<^verbatim>\<open>try\<close> block of \<^verbatim>\<open>make_github_request\<close> other than a value:
  \<^verbatim>\<open>httpx.HTTPStatusError\<close>, raised by \<^verbatim>\<open>raise_for_status\<close> with the response, or any
  exception of \<open>exn\<close>.
\<close>

datatype thrown = HTTPStatusError response | Exc exn

text \<open>
  The effects of a call: the requests handed to \<^verbatim>\<open>client.post\<close>, and the lines given to
  \<^verbatim>\<open>logging\<close> (level and message; the traceback of \<^verbatim>\<open>exc_info=True\<close> is left out).
\<close>

datatype level = DEBUG | INFO | WARNING | ERROR

record world =
  attempted :: "request list"
  log_lines :: "(level \<times> string) list"

definition logging :: "level \<Rightarrow> string \<Rightarrow> world \<Rightarrow> world" where
  "logging lv msg w = w\<lparr>log_lines := log_lines w @ [(lv, msg)]\<rparr>"

definition post :: "remote \<Rightarrow> request \<Rightarrow> world \<Rightarrow> outcome \<times> world" where
  "post remote req w = (remote req, w\<lparr>attempted := attempted w @ [req]\<rparr>)"

subsection \<open>Response headers\<close>

text \<open>
  \<^verbatim>\<open>response.headers.get(name)\<close>: names compare without case; the values of repeated
  lines are joined with \<^verbatim>\<open>", "\<close>; \<^verbatim>\<open>None\<close> when no line has the name.
\<close>

definition lower_char :: "char \<Rightarrow> char" where
  "lower_char c =
     (case map_of (zip ''ABCDEFGHIJKLMNOPQRSTUVWXYZ'' ''abcdefghijklmnopqrstuvwxyz'') c of
        None \<Rightarrow> c | Some d \<Rightarrow> d)"

definition headers_get :: "(string \<times> string) list \<Rightarrow> string \<Rightarrow> string option" where
  "headers_get hs name =
     (let vs = map snd (filter (\<lambda>h. map lower_char (fst h) = map lower_char name) hs)
      in if vs = [] then None else Some (join '', '' vs))"

definition is_success :: "response \<Rightarrow> bool" where
  "is_success resp = (200 \<le> status_code resp \<and> status_code resp \<le> 299)"

section \<open>The relay\<close>

definition GITHUB_GRAPHQL_API_URL :: string where
  "GITHUB_GRAPHQL_API_URL = ''https://api.github.com/graphql''"

text \<open>The value \<^verbatim>\<open>{"errors": [{"message": msg}]}\<close>.\<close>

definition error_result :: "string \<Rightarrow> json" where
  "error_result msg = JObj [(''errors'', JArr [JObj [(''message'', JStr msg)]])]"

text \<open>
  \<^verbatim>\<open>payload = {"query": query}\<close>, then \<^verbatim>\<open>if variables: payload["variables"] = variables\<close>:
  \<^verbatim>\<open>None\<close> and the empty dict are both falsy.
\<close>

definition build_payload :: "string \<Rightarrow> (string \<times> json) list option \<Rightarrow> json" where
  "build_payload query variables =
     (case variables of
        None \<Rightarrow> JObj [(''query'', JStr query)]
      | Some [] \<Rightarrow> JObj [(''query'', JStr query)]
      | Some (kv # kvs) \<Rightarrow> JObj [(''query'', JStr query), (''variables'', JObj (kv # kvs))])"

definition build_request :: "string \<Rightarrow> string \<Rightarrow> (string \<times> json) list option \<Rightarrow> request" where
  "build_request token query variables =
     \<lparr>url = GITHUB_GRAPHQL_API_URL,
      req_headers = [(''Authorization'', ''Bearer '' @ token),
                     (''Content-Type'', ''application/json''),
                     (''User-Agent'', ''MCPGitHubServer/0.1.0'')],
      json_payload = build_payload query variables,
      timeout_seconds = 30\<rparr>"

text \<open>
  Lines 63 to 70, the rate-limit log. \<^verbatim>\<open>int(rate_remaining)\<close> is evaluated whenever both
  headers are present, and raises when the text is not an integer.
\<close>

definition log_rate_limit :: "response \<Rightarrow> world \<Rightarrow> (exn + unit) \<times> world" where
  "log_rate_limit resp w =
     (let rate_limit = headers_get (headers resp) ''X-RateLimit-Limit'';
          rate_remaining = headers_get (headers resp) ''X-RateLimit-Remaining'';
          rate_reset = headers_get (headers resp) ''X-RateLimit-Reset''
      in case rate_limit of
           None \<Rightarrow> (Inr (), w)
         | Some lim \<Rightarrow>
             (case rate_remaining of
                None \<Rightarrow> (Inr (), w)
              | Some remaining \<Rightarrow>
                  (let w1 = logging INFO (''GitHub Rate Limit: '' @ remaining @ ''/'' @ lim
                              @ '' remaining. Resets at timestamp ''
                              @ (case rate_reset of None \<Rightarrow> ''None'' | Some r \<Rightarrow> r) @ ''.'') w
                   in case py_int remaining of
                        Inl e \<Rightarrow> (Inl e, w1)
                      | Inr n \<Rightarrow>
                          if n < 50
                          then (Inr (), logging WARNING (''GitHub Rate Limit low: '' @ remaining
                                          @ '' remaining.'') w1)
                          else (Inr (), w1))))"

text \<open>
  Lines 74 to 78: the body of a successful response. The check for \<^verbatim>\<open>"errors"\<close> only
  feeds a log line, but \<^verbatim>\<open>in\<close> and the subscript are evaluated on whatever the body
  decoded to.
\<close>

definition read_result :: "response \<Rightarrow> world \<Rightarrow> (exn + json) \<times> world" where
  "read_result resp w =
     (case body_json resp of
        Inl e \<Rightarrow> (Inl e, w)
      | Inr result \<Rightarrow>
          (case py_contains ''errors'' result of
             Inl e \<Rightarrow> (Inl e, w)
           | Inr False \<Rightarrow> (Inr result, w)
           | Inr True \<Rightarrow>
               (case py_getitem result ''errors'' of
                  Inl e \<Rightarrow> (Inl e, w)
                | Inr errs \<Rightarrow> (Inr result, logging WARNING (''GraphQL Errors: '' @ py_str errs) w))))"

text \<open>Lines 55 to 78, the \<^verbatim>\<open>try\<close> block.\<close>

definition attempt ::
  "string \<Rightarrow> remote \<Rightarrow> string \<Rightarrow> (string \<times> json) list option \<Rightarrow> world \<Rightarrow> (thrown + json) \<times> world"
where
  "attempt token remote query variables w =
     (let w1 = logging DEBUG (''Sending request to GitHub: '' @ take 100 query @ ''...'') w
      in case post remote (build_request token query variables) w1 of
           (Raises e, w2) \<Rightarrow> (Inl (Exc e), w2)
         | (Responds resp, w2) \<Rightarrow>
             (case log_rate_limit resp w2 of
                (Inl e, w3) \<Rightarrow> (Inl (Exc e), w3)
              | (Inr _, w3) \<Rightarrow>
                  if \<not> is_success resp then (Inl (HTTPStatusError resp), w3)
                  else
                    (case read_result resp
                            (logging DEBUG (''GitHub response status: '' @ str_nat (status_code resp)) w3) of
                       (Inl e, w4) \<Rightarrow> (Inl (Exc e), w4)
                     | (Inr result, w4) \<Rightarrow> (Inr result, w4))))"

text \<open>
  Lines 85 to 95, the inner \<^verbatim>\<open>try\<close> of the status handler: the composed message, or the
  exception raised while composing it.
\<close>

definition compose_detail :: "string \<Rightarrow> response \<Rightarrow> exn + string" where
  "compose_detail error_detail resp =
     (case body_json resp of
        Inl e \<Rightarrow> Inl e
      | Inr err_resp \<Rightarrow>
          (case py_contains ''errors'' err_resp of
             Inl e \<Rightarrow> Inl e
           | Inr True \<Rightarrow>
               (case py_getitem err_resp ''errors'' of
                  Inl e \<Rightarrow> Inl e
                | Inr errs \<Rightarrow>
                    (case py_getitem0 errs of
                       Inl e \<Rightarrow> Inl e
                     | Inr first \<Rightarrow>
                         (case py_getitem first ''message'' of
                            Inl e \<Rightarrow> Inl e
                          | Inr m \<Rightarrow> Inr (error_detail @ '' - '' @ py_str m))))
           | Inr False \<Rightarrow>
               (case py_contains ''message'' err_resp of
                  Inl e \<Rightarrow> Inl e
                | Inr True \<Rightarrow>
                    (case py_getitem err_resp ''message'' of
                       Inl e \<Rightarrow> Inl e
                     | Inr m \<Rightarrow> Inr (error_detail @ '' - '' @ py_str m))
                | Inr False \<Rightarrow> Inr error_detail)))"

text \<open>
  Lines 82 to 97, the handler of \<^verbatim>\<open>httpx.HTTPStatusError\<close>. Its inner \<^verbatim>\<open>try\<close> catches
  \<^verbatim>\<open>json.JSONDecodeError\<close> only; any other exception raised there leaves the function, since
  the \<^verbatim>\<open>except Exception\<close> beside it guards the outer \<^verbatim>\<open>try\<close> block, not its handlers.
\<close>

definition on_status_error :: "response \<Rightarrow> world \<Rightarrow> (exn + json) \<times> world" where
  "on_status_error resp w =
     (let w1 = logging ERROR (''HTTP Status Error: '' @ str_nat (status_code resp)
                 @ '' - Response: '' @ take 500 (body_text resp)) w;
          error_detail = ''HTTP Status Error: '' @ str_nat (status_code resp)
      in case compose_detail error_detail resp of
           Inr detail \<Rightarrow> (Inr (error_result detail), w1)
         | Inl (JSONDecodeError _) \<Rightarrow> (Inr (error_result error_detail), w1)
         | Inl e \<Rightarrow> (Inl e, w1))"

text \<open>
  \<^verbatim>\<open>make_github_request\<close>. \<open>token\<close> is the global \<^verbatim>\<open>GITHUB_TOKEN\<close>, that is
  \<^verbatim>\<open>os.environ.get("GITHUB_TOKEN")\<close>: \<^verbatim>\<open>None\<close> or a string, falsy when \<^verbatim>\<open>None\<close> or empty.
\<close>

definition make_github_request ::
  "string option \<Rightarrow> remote \<Rightarrow> string \<Rightarrow> (string \<times> json) list option \<Rightarrow> world \<Rightarrow> (exn + json) \<times> world"
where
  "make_github_request GITHUB_TOKEN remote query variables w =
     (case GITHUB_TOKEN of
        None \<Rightarrow>
          (Inr (error_result ''Server missing GitHub API token.''),
           logging ERROR ''GitHub API token is missing. Cannot make request.'' w)
      | Some [] \<Rightarrow>
          (Inr (error_result ''Server missing GitHub API token.''),
           logging ERROR ''GitHub API token is missing. Cannot make request.'' w)
      | Some (c # cs) \<Rightarrow>
          (case attempt (c # cs) remote query variables w of
             (Inr result, w1) \<Rightarrow> (Inr result, w1)
           | (Inl (Exc (RequestError d)), w1) \<Rightarrow>
               (Inr (error_result (''HTTP Request Error connecting to GitHub: '' @ d)),
                logging ERROR (''HTTP Request Error: '' @ d) w1)
           | (Inl (HTTPStatusError resp), w1) \<Rightarrow> on_status_error resp w1
           | (Inl (Exc e), w1) \<Rightarrow>
               (Inr (error_result (''An unexpected error occurred: '' @ exn_str e)),
                logging ERROR (''Generic Error during GitHub request: '' @ exn_str e) w1)))"

text \<open>
  \<^verbatim>\<open>github_execute_graphql\<close>, the tool: the JSON text it returns, or the exception that
  leaves it.
\<close>

definition github_execute_graphql ::
  "string option \<Rightarrow> remote \<Rightarrow> string \<Rightarrow> (string \<times> json) list option \<Rightarrow> world \<Rightarrow> (exn + string) \<times> world"
where
  "github_execute_graphql GITHUB_TOKEN remote query variables w =
     (if query = []
      then (Inr (json_dumps (error_result ''Query cannot be empty.'')),
            logging WARNING ''Received empty query for github_execute_graphql.'' w)
      else
        (case make_github_request GITHUB_TOKEN remote query variables
                (logging INFO (''Executing github_execute_graphql with query starting: ''
                   @ take 50 query @ ''...'') w) of
           (Inl e, w1) \<Rightarrow> (Inl e, w1)
         | (Inr result, w1) \<Rightarrow> (Inr (json_dumps result), w1)))"

section \<open>Effects: what a call leaves in the world\<close>

lemma attempted_logging: "attempted (logging lv msg w) = attempted w"
  by (simp add: logging_def)

lemma attempted_log_rate_limit: "attempted (snd (log_rate_limit resp w)) = attempted w"
  by (simp add: log_rate_limit_def Let_def attempted_logging split: option.splits sum.splits)

lemma attempted_read_result: "attempted (snd (read_result resp w)) = attempted w"
  by (simp add: read_result_def attempted_logging split: sum.splits bool.splits)

lemma attempted_on_status_error: "attempted (snd (on_status_error resp w)) = attempted w"
  by (simp add: on_status_error_def Let_def attempted_logging split: sum.splits exn.splits)

lemma attempted_attempt:
  "attempted (snd (attempt token remote query variables w)) =
     attempted w @ [build_request token query variables]"
  by (simp add: attempt_def post_def Let_def case_prod_beta attempted_logging
      attempted_log_rate_limit attempted_read_result split: outcome.splits sum.splits)

lemma attempted_make_github_request:
  "token \<noteq> [] \<Longrightarrow>
   attempted (snd (make_github_request (Some token) remote query variables w)) =
     attempted w @ [build_request token query variables]"
  by (cases token)
    (simp_all add: make_github_request_def case_prod_beta attempted_logging
      attempted_attempt attempted_on_status_error split: sum.splits thrown.splits exn.splits)

lemma attempted_github_execute_graphql:
  "query \<noteq> [] \<Longrightarrow> token \<noteq> [] \<Longrightarrow>
   attempted (snd (github_execute_graphql (Some token) remote query variables w)) =
     attempted w @ [build_request token query variables]"
  by (simp add: github_execute_graphql_def case_prod_beta attempted_logging
      attempted_make_github_request split: sum.splits)

section \<open>The value of a call does not depend on the world\<close>

lemma fst_log_rate_limit: "fst (log_rate_limit resp w) = fst (log_rate_limit resp w')"
  by (simp add: log_rate_limit_def Let_def split: option.splits sum.splits)

lemma fst_read_result: "fst (read_result resp w) = fst (read_result resp w')"
  by (simp add: read_result_def split: sum.splits bool.splits)

lemma fst_on_status_error: "fst (on_status_error resp w) = fst (on_status_error resp w')"
  by (simp add: on_status_error_def Let_def split: sum.splits exn.splits)

lemma value_log_rate_limit: "\<exists>v. \<forall>w. fst (log_rate_limit resp w) = v"
  using fst_log_rate_limit by blast

lemma value_read_result: "\<exists>v. \<forall>w. fst (read_result resp w) = v"
  using fst_read_result by blast

lemma value_on_status_error: "\<exists>v. \<forall>w. fst (on_status_error resp w) = v"
  using fst_on_status_error by blast

lemma value_attempt: "\<exists>v. \<forall>w. fst (attempt token remote query variables w) = v"
proof (cases "remote (build_request token query variables)")
  case (Raises e)
  then show ?thesis
    by (simp add: attempt_def post_def Let_def)
next
  case (Responds resp)
  obtain a where a: "\<And>w. fst (log_rate_limit resp w) = a"
    using value_log_rate_limit by blast
  obtain b where b: "\<And>w. fst (read_result resp w) = b"
    using value_read_result by blast
  show ?thesis
    by (cases a; cases b; cases "is_success resp")
      (simp_all add: attempt_def post_def Let_def case_prod_beta Responds a b)
qed

lemma value_make_github_request:
  "\<exists>v. \<forall>w. fst (make_github_request GITHUB_TOKEN remote query variables w) = v"
proof (cases GITHUB_TOKEN)
  case None
  then show ?thesis by (simp add: make_github_request_def)
next
  case (Some token)
  show ?thesis
  proof (cases token)
    case Nil
    with Some show ?thesis by (simp add: make_github_request_def)
  next
    case (Cons c cs)
    obtain a where a: "\<And>w. fst (attempt token remote query variables w) = a"
      using value_attempt by blast
    show ?thesis
    proof (cases a)
      case (Inr result)
      with a Some Cons show ?thesis
        by (simp add: make_github_request_def case_prod_beta)
    next
      case (Inl t)
      show ?thesis
      proof (cases t)
        case (HTTPStatusError resp)
        obtain b where b: "\<And>w. fst (on_status_error resp w) = b"
          using value_on_status_error by blast
        from a Some Cons Inl HTTPStatusError b show ?thesis
          by (simp add: make_github_request_def case_prod_beta)
      next
        case (Exc e)
        from a Some Cons Inl Exc show ?thesis
          by (cases e) (simp_all add: make_github_request_def case_prod_beta)
      qed
    qed
  qed
qed

lemma value_github_execute_graphql:
  "\<exists>v. \<forall>w. fst (github_execute_graphql GITHUB_TOKEN remote query variables w) = v"
proof -
  obtain a where a: "\<And>w. fst (make_github_request GITHUB_TOKEN remote query variables w) = a"
    using value_make_github_request by blast
  show ?thesis
    by (cases a; cases "query = []")
      (simp_all add: github_execute_graphql_def case_prod_beta a)
qed

section \<open>The text of the fixed results\<close>

lemma dumps_empty_query:
  "json_dumps (error_result ''Query cannot be empty.'') =
     ''{\"errors\": [{\"message\": \"Query cannot be empty.\"}]}''"
  by (simp add: error_result_def dumps_str_def escape_char_def)

lemma dumps_missing_token:
  "json_dumps (error_result ''Server missing GitHub API token.'') =
     ''{\"errors\": [{\"message\": \"Server missing GitHub API token.\"}]}''"
  by (simp add: error_result_def dumps_str_def escape_char_def)

section \<open>The claims\<close>

text \<open>
  C5. With an empty query the tool returns the serialised result
  \<^verbatim>\<open>{"errors": [{"message": "Query cannot be empty."}]}\<close> whatever the variables, the token
  and the endpoint are, and hands no request to the HTTP client: the list of attempted
  requests is left as it was. (The text is that of \<^verbatim>\<open>json.dumps\<close>, with a space after each
  colon.)
\<close>

theorem empty_query_short_circuits:
  "fst (github_execute_graphql GITHUB_TOKEN remote [] variables w) =
     Inr (json_dumps (error_result ''Query cannot be empty.''))
   \<and> json_dumps (error_result ''Query cannot be empty.'') =
     ''{\"errors\": [{\"message\": \"Query cannot be empty.\"}]}''
   \<and> attempted (snd (github_execute_graphql GITHUB_TOKEN remote [] variables w)) = attempted w"
  by (simp add: github_execute_graphql_def attempted_logging dumps_empty_query)

theorem empty_query_short_circuits_witness:
  "fst (github_execute_graphql (Some ''ghp_token'')
          (\<lambda>req. Raises (RequestError ''unreachable'')) [] (Some [(''owner'', JStr ''octocat'')])
          \<lparr>attempted = [], log_lines = []\<rparr>) =
     Inr ''{\"errors\": [{\"message\": \"Query cannot be empty.\"}]}''
   \<and> attempted (snd (github_execute_graphql (Some ''ghp_token'')
          (\<lambda>req. Raises (RequestError ''unreachable'')) [] (Some [(''owner'', JStr ''octocat'')])
          \<lparr>attempted = [], log_lines = []\<rparr>)) = []"
  using empty_query_short_circuits [of "Some ''ghp_token''"
      "\<lambda>req. Raises (RequestError ''unreachable'')" "Some [(''owner'', JStr ''octocat'')]"
      "\<lparr>attempted = [], log_lines = []\<rparr>"]
  by simp

text \<open>
  C6. With a non-empty query and no credential (\<^verbatim>\<open>GITHUB_TOKEN\<close> unset, or set to the empty
  string) the result is \<^verbatim>\<open>{"errors": [{"message": "Server missing GitHub API token."}]}\<close> and no
  request is handed to the HTTP client.
\<close>

theorem missing_token_short_circuits:
  assumes "query \<noteq> []" and "GITHUB_TOKEN = None \<or> GITHUB_TOKEN = Some []"
  shows "fst (make_github_request GITHUB_TOKEN remote query variables w) =
           Inr (error_result ''Server missing GitHub API token.'')
         \<and> fst (github_execute_graphql GITHUB_TOKEN remote query variables w) =
           Inr ''{\"errors\": [{\"message\": \"Server missing GitHub API token.\"}]}''
         \<and> attempted (snd (github_execute_graphql GITHUB_TOKEN remote query variables w)) =
           attempted w"
  using assms
  by (auto simp add: github_execute_graphql_def make_github_request_def attempted_logging
      dumps_missing_token)

theorem missing_token_short_circuits_witness:
  "''query { viewer { login } }'' \<noteq> []
   \<and> fst (github_execute_graphql None (\<lambda>req. Raises (RequestError ''unreachable''))
          ''query { viewer { login } }'' None \<lparr>attempted = [], log_lines = []\<rparr>) =
       Inr ''{\"errors\": [{\"message\": \"Server missing GitHub API token.\"}]}''
   \<and> attempted (snd (github_execute_graphql None (\<lambda>req. Raises (RequestError ''unreachable''))
          ''query { viewer { login } }'' None \<lparr>attempted = [], log_lines = []\<rparr>)) = []"
  using missing_token_short_circuits [of "''query { viewer { login } }''" None
      "\<lambda>req. Raises (RequestError ''unreachable'')" None "\<lparr>attempted = [], log_lines = []\<rparr>"]
  by simp

text \<open>
  C9. Against a deterministic endpoint (a function from the request to what the call does),
  a second call with the same query and variables, made in the world the first call left
  behind, gives the same outcome as the first: the same returned text, or the same exception.
\<close>

theorem execute_deterministic:
  "fst (github_execute_graphql GITHUB_TOKEN remote query variables
          (snd (github_execute_graphql GITHUB_TOKEN remote query variables w)))
   = fst (github_execute_graphql GITHUB_TOKEN remote query variables w)"
proof -
  obtain v where "\<And>w. fst (github_execute_graphql GITHUB_TOKEN remote query variables w) = v"
    using value_github_execute_graphql by blast
  then show ?thesis by simp
qed

text \<open>
  C7. When the call to the endpoint raises \<^verbatim>\<open>httpx.RequestError\<close> (connection refused, DNS
  failure, or the timeout of 30 seconds given to \<^verbatim>\<open>client.post\<close>), the result holds exactly
  one error, whose message is \<^verbatim>\<open>HTTP Request Error connecting to GitHub: \<close> followed by the
  text of the exception. The call is attempted only with a non-empty query and a token.
\<close>

theorem request_error_result:
  assumes "query \<noteq> []" and "token \<noteq> []"
    and "remote (build_request token query variables) = Raises (RequestError detail)"
  shows "fst (make_github_request (Some token) remote query variables w) =
           Inr (JObj [(''errors'', JArr [JObj [(''message'',
                  JStr (''HTTP Request Error connecting to GitHub: '' @ detail))]])])
         \<and> fst (github_execute_graphql (Some token) remote query variables w) =
           Inr (json_dumps (JObj [(''errors'', JArr [JObj [(''message'',
                  JStr (''HTTP Request Error connecting to GitHub: '' @ detail))]])]))
         \<and> timeout_seconds (build_request token query variables) = 30"
proof -
  from assms(2) obtain c cs where token: "token = c # cs"
    by (cases token) auto
  have m: "fst (make_github_request (Some token) remote query variables w') =
           Inr (error_result (''HTTP Request Error connecting to GitHub: '' @ detail))" for w'
    using assms(3)
    by (simp add: make_github_request_def attempt_def post_def Let_def token)
  show ?thesis
    using assms(1) m
    by (simp add: github_execute_graphql_def case_prod_beta error_result_def build_request_def)
qed

theorem request_error_result_witness:
  "fst (github_execute_graphql (Some ''ghp_token'') (\<lambda>req. Raises (RequestError ''timed out''))
          ''query { viewer { login } }'' None \<lparr>attempted = [], log_lines = []\<rparr>) =
     Inr ''{\"errors\": [{\"message\": \"HTTP Request Error connecting to GitHub: timed out\"}]}''"
  using request_error_result [of "''query { viewer { login } }''" "''ghp_token''"
      "\<lambda>req. Raises (RequestError ''timed out'')" None "''timed out''"
      "\<lparr>attempted = [], log_lines = []\<rparr>"]
  by (simp add: dumps_str_def escape_char_def)

text \<open>
  C8, as stated, fails: variables that are supplied but empty are left out of the body. With
  a token, the query \<^verbatim>\<open>query { viewer { login } }\<close> and \<^verbatim>\<open>variables = {}\<close> the one request made
  has the payload \<^verbatim>\<open>{"query": ...}\<close>, not \<^verbatim>\<open>{"query": ..., "variables": {}}\<close>.
\<close>

theorem supplied_empty_variables_omitted:
  "map json_payload (attempted (snd (github_execute_graphql (Some ''ghp_token'')
      (\<lambda>req. Raises (RequestError ''timed out'')) ''query { viewer { login } }'' (Some [])
      \<lparr>attempted = [], log_lines = []\<rparr>))) =
     [JObj [(''query'', JStr ''query { viewer { login } }'')]]
   \<and> map json_payload (attempted (snd (github_execute_graphql (Some ''ghp_token'')
      (\<lambda>req. Raises (RequestError ''timed out'')) ''query { viewer { login } }'' (Some [])
      \<lparr>attempted = [], log_lines = []\<rparr>))) \<noteq>
     [JObj [(''query'', JStr ''query { viewer { login } }''), (''variables'', JObj [])]]"
  by (simp add: attempted_github_execute_graphql build_request_def build_payload_def)

text \<open>
  C8, amended. For a non-empty query and a configured token, the tool makes exactly one
  request; its body is \<^verbatim>\<open>{query}\<close> when the variables are absent or an empty mapping, and
  \<^verbatim>\<open>{query, variables}\<close> when they are a non-empty mapping.
\<close>

theorem payload_has_variables_iff_truthy:
  assumes "query \<noteq> []" and "token \<noteq> []"
  shows "\<exists>req. attempted (snd (github_execute_graphql (Some token) remote query variables w)) =
                 attempted w @ [req]
          \<and> json_payload req =
             (if variables = None \<or> variables = Some [] then JObj [(''query'', JStr query)]
              else JObj [(''query'', JStr query), (''variables'', JObj (the variables))])"
  using assms
  by (auto simp add: attempted_github_execute_graphql build_request_def build_payload_def
      split: option.splits list.splits)

theorem payload_has_variables_iff_truthy_witness:
  "(\<exists>req. attempted (snd (github_execute_graphql (Some ''ghp_token'')
              (\<lambda>req. Raises (RequestError ''timed out'')) ''query($n: Int!) { viewer { login } }''
              (Some [(''n'', JInt 1)]) \<lparr>attempted = [], log_lines = []\<rparr>)) = [req]
          \<and> json_payload req =
             JObj [(''query'', JStr ''query($n: Int!) { viewer { login } }''),
                   (''variables'', JObj [(''n'', JInt 1)])])"
  using payload_has_variables_iff_truthy [of "''query($n: Int!) { viewer { login } }''" "''ghp_token''"
      "\<lambda>req. Raises (RequestError ''timed out'')" "Some [(''n'', JInt 1)]"
      "\<lparr>attempted = [], log_lines = []\<rparr>"]
  by simp

text \<open>
  C10. Variables supplied as the empty mapping are treated exactly as absent variables: the
  whole call (value and effects) is the same, and the body of the one request made is
  \<^verbatim>\<open>{query}\<close>, without a \<^verbatim>\<open>variables\<close> key. The test is the truthiness of the mapping.
\<close>

theorem empty_variables_same_as_absent:
  assumes "query \<noteq> []" and "token \<noteq> []"
  shows "github_execute_graphql (Some token) remote query (Some []) w =
           github_execute_graphql (Some token) remote query None w
         \<and> (\<exists>req. attempted (snd (github_execute_graphql (Some token) remote query (Some []) w)) =
                 attempted w @ [req]
              \<and> json_payload req = JObj [(''query'', JStr query)])"
proof -
  from assms(2) obtain c cs where token: "token = c # cs"
    by (cases token) auto
  have "build_request token query (Some []) = build_request token query None"
    by (simp add: build_request_def build_payload_def)
  then have "attempt token remote query (Some []) w' = attempt token remote query None w'" for w'
    by (simp add: attempt_def)
  then have "make_github_request (Some token) remote query (Some []) w' =
      make_github_request (Some token) remote query None w'" for w'
    by (simp add: make_github_request_def token)
  then have "github_execute_graphql (Some token) remote query (Some []) w =
           github_execute_graphql (Some token) remote query None w"
    by (simp add: github_execute_graphql_def)
  moreover have "json_payload (build_request token query (Some [])) = JObj [(''query'', JStr query)]"
    by (simp add: build_request_def build_payload_def)
  ultimately show ?thesis
    using assms
    by (simp add: attempted_github_execute_graphql build_request_def build_payload_def)
qed

theorem empty_variables_same_as_absent_witness:
  "(\<exists>req. attempted (snd (github_execute_graphql (Some ''ghp_token'')
              (\<lambda>req. Raises (RequestError ''timed out'')) ''query { viewer { login } }''
              (Some []) \<lparr>attempted = [], log_lines = []\<rparr>)) = [req]
          \<and> json_payload req = JObj [(''query'', JStr ''query { viewer { login } }'')])"
  using empty_variables_same_as_absent [of "''query { viewer { login } }''" "''ghp_token''"
      "\<lambda>req. Raises (RequestError ''timed out'')" "\<lparr>attempted = [], log_lines = []\<rparr>",
      THEN conjunct2]
  by simp

section \<open>Responses the relay handles as documented\<close>

text \<open>
  A successful response whose body decodes to a JSON object comes back unchanged, provided
  the rate-limit log does not raise (the headers are absent, or the remaining count is an
  integer).
\<close>

lemma key_in_object: "key \<in> fst ` set kvs \<longleftrightarrow> map_of kvs key \<noteq> None"
  by (simp add: map_of_eq_None_iff)

lemma success_object_passthrough:
  assumes "query \<noteq> []" and "token \<noteq> []"
    and "remote (build_request token query variables) = Responds resp"
    and "is_success resp"
    and "fst (log_rate_limit resp w0) = Inr ()"
    and "body_json resp = Inr (JObj kvs)"
  shows "fst (make_github_request (Some token) remote query variables w) = Inr (JObj kvs)
         \<and> fst (github_execute_graphql (Some token) remote query variables w) =
             Inr (json_dumps (JObj kvs))"
proof -
  from assms(2) obtain c cs where token: "token = c # cs"
    by (cases token) auto
  have rl: "fst (log_rate_limit resp w') = Inr ()" for w'
    using assms(5) fst_log_rate_limit [of resp w' w0] by simp
  have rr: "fst (read_result resp w') = Inr (JObj kvs)" for w'
  proof (cases "map_of kvs ''errors''")
    case None
    then have "''errors'' \<notin> fst ` set kvs"
      by (simp add: key_in_object)
    with assms(6) show ?thesis
      by (simp add: read_result_def)
  next
    case (Some errs)
    then have "''errors'' \<in> fst ` set kvs"
      by (simp add: key_in_object)
    with assms(6) Some show ?thesis
      by (simp add: read_result_def)
  qed
  have at: "fst (attempt token remote query variables w') = Inr (JObj kvs)" for w'
    using assms(3,4) rl [of "snd (post remote (build_request token query variables)
        (logging DEBUG (''Sending request to GitHub: '' @ take 100 query @ ''...'') w'))"]
    by (simp add: attempt_def Let_def case_prod_beta post_def rr split: sum.splits)
  have m: "fst (make_github_request (Some token) remote query variables w') = Inr (JObj kvs)" for w'
    using at [of w'] by (simp add: make_github_request_def case_prod_beta token)
  show ?thesis
    using assms(1) m by (simp add: github_execute_graphql_def case_prod_beta)
qed

lemma hello_world_example:
  "fst (github_execute_graphql (Some ''ghp_token'')
          (\<lambda>req. Responds \<lparr>status_code = 200, headers = [],
             body_text = ''{\"data\":{\"repository\":{\"name\":\"Hello-World\"}}}'',
             body_json = Inr (JObj [(''data'',
                           JObj [(''repository'', JObj [(''name'', JStr ''Hello-World'')])])])\<rparr>)
          ''query { viewer { login } }'' None \<lparr>attempted = [], log_lines = []\<rparr>) =
     Inr ''{\"data\": {\"repository\": {\"name\": \"Hello-World\"}}}''"
  by code_simp

text \<open>
  The message composed for a response outside 200..299 whose body decodes to a JSON object:
  the first entry's message when \<^verbatim>\<open>errors\<close> is a list starting with an object that has one,
  else the top-level \<^verbatim>\<open>message\<close>, else the status alone.
\<close>

lemma compose_detail_errors:
  assumes "body_json resp = Inr (JObj kvs)"
    and "map_of kvs ''errors'' = Some (JArr (JObj first # rest))"
    and "map_of first ''message'' = Some m"
  shows "compose_detail d resp = Inr (d @ '' - '' @ py_str m)"
  using assms by (simp add: compose_detail_def key_in_object)

lemma compose_detail_message:
  assumes "body_json resp = Inr (JObj kvs)"
    and "map_of kvs ''errors'' = None"
    and "map_of kvs ''message'' = Some m"
  shows "compose_detail d resp = Inr (d @ '' - '' @ py_str m)"
  using assms by (simp add: compose_detail_def key_in_object)

lemma compose_detail_plain:
  assumes "body_json resp = Inr (JObj kvs)"
    and "map_of kvs ''errors'' = None"
    and "map_of kvs ''message'' = None"
  shows "compose_detail d resp = Inr d"
  using assms by (simp add: compose_detail_def key_in_object)

lemma status_error_result:
  assumes "query \<noteq> []" and "token \<noteq> []"
    and "remote (build_request token query variables) = Responds resp"
    and "\<not> is_success resp"
    and "fst (log_rate_limit resp w0) = Inr ()"
    and "compose_detail (''HTTP Status Error: '' @ str_nat (status_code resp)) resp = Inr detail"
  shows "fst (make_github_request (Some token) remote query variables w) =
           Inr (error_result detail)"
proof -
  from assms(2) obtain c cs where token: "token = c # cs"
    by (cases token) auto
  have rl: "fst (log_rate_limit resp w') = Inr ()" for w'
    using assms(5) fst_log_rate_limit [of resp w' w0] by simp
  have at: "fst (attempt token remote query variables w') = Inl (HTTPStatusError resp)" for w'
    using assms(3,4) rl [of "snd (post remote (build_request token query variables)
        (logging DEBUG (''Sending request to GitHub: '' @ take 100 query @ ''...'') w'))"]
    by (simp add: attempt_def Let_def case_prod_beta post_def split: sum.splits)
  have "fst (on_status_error resp w') = Inr (error_result detail)" for w'
    using assms(6) by (simp add: on_status_error_def Let_def)
  then show ?thesis
    using at [of w] by (simp add: make_github_request_def case_prod_beta token)
qed

lemma bad_credentials_example:
  "fst (github_execute_graphql (Some ''ghp_token'')
          (\<lambda>req. Responds \<lparr>status_code = 403, headers = [],
             body_text = ''{\"message\":\"Bad credentials\"}'',
             body_json = Inr (JObj [(''message'', JStr ''Bad credentials'')])\<rparr>)
          ''query { viewer { login } }'' None \<lparr>attempted = [], log_lines = []\<rparr>) =
     Inr ''{\"errors\": [{\"message\": \"HTTP Status Error: 403 - Bad credentials\"}]}''"
  by code_simp

section \<open>Responses on which the relay departs from its documentation\<close>

text \<open>
  C1. The tool does raise. The endpoint answers 422 with the body
  \<^verbatim>\<open>{"message":"Validation Failed","errors":[{"code":"missing_field"}]}\<close>; in the handler of
  \<^verbatim>\<open>HTTPStatusError\<close>, \<^verbatim>\<open>err_resp['errors'][0]['message']\<close> raises \<^verbatim>\<open>KeyError('message')\<close>, which
  the inner \<^verbatim>\<open>except json.JSONDecodeError\<close> does not catch, and which leaves
  \<^verbatim>\<open>make_github_request\<close> and \<^verbatim>\<open>github_execute_graphql\<close>: no JSON text is returned.
\<close>

theorem status_handler_fault_escapes:
  "fst (github_execute_graphql (Some ''ghp_token'')
          (\<lambda>req. Responds \<lparr>status_code = 422, headers = [],
             body_text = ''{\"message\":\"Validation Failed\",\"errors\":[{\"code\":\"missing_field\"}]}'',
             body_json = Inr (JObj [(''message'', JStr ''Validation Failed''),
                           (''errors'', JArr [JObj [(''code'', JStr ''missing_field'')]])])\<rparr>)
          ''query { viewer { login } }'' None \<lparr>attempted = [], log_lines = []\<rparr>) =
     Inl (KeyError ([CHR 0x27] @ ''message'' @ [CHR 0x27]))"
  by code_simp

text \<open>
  C2. The endpoint answers 500 with the body \<^verbatim>\<open>null\<close>, which decodes as JSON and has neither
  an \<^verbatim>\<open>errors\<close> array nor a \<^verbatim>\<open>message\<close>. No result with the message
  \<^verbatim>\<open>HTTP Status Error: 500\<close> is returned: \<^verbatim>\<open>"errors" in err_resp\<close> raises \<^verbatim>\<open>TypeError\<close> in the
  status handler, and the exception leaves the tool.
\<close>

theorem status_handler_null_body_raises:
  "fst (github_execute_graphql (Some ''ghp_token'')
          (\<lambda>req. Responds \<lparr>status_code = 500, headers = [], body_text = ''null'',
             body_json = Inr JNull\<rparr>)
          ''query { viewer { login } }'' None \<lparr>attempted = [], log_lines = []\<rparr>) =
     Inl (TypeError (''argument of type '' @ [CHR 0x27] @ ''NoneType'' @ [CHR 0x27]
            @ '' is not iterable''))"
  by code_simp

text \<open>
  C3. Two responses that differ only in the value of \<^verbatim>\<open>X-RateLimit-Remaining\<close> give different
  results: with \<^verbatim>\<open>4999\<close> the body comes back, with \<^verbatim>\<open>abc\<close> the \<^verbatim>\<open>int(rate_remaining)\<close> of the
  log raises \<^verbatim>\<open>ValueError\<close> inside the \<^verbatim>\<open>try\<close> block and the result is the unexpected-error
  one.
\<close>

theorem rate_limit_header_changes_result:
  "fst (github_execute_graphql (Some ''ghp_token'')
          (\<lambda>req. Responds \<lparr>status_code = 200,
             headers = [(''X-RateLimit-Limit'', ''5000''), (''X-RateLimit-Remaining'', ''4999'')],
             body_text = ''{\"data\":null}'', body_json = Inr (JObj [(''data'', JNull)])\<rparr>)
          ''query { viewer { login } }'' None \<lparr>attempted = [], log_lines = []\<rparr>) =
     Inr ''{\"data\": null}''
   \<and> fst (github_execute_graphql (Some ''ghp_token'')
          (\<lambda>req. Responds \<lparr>status_code = 200,
             headers = [(''X-RateLimit-Limit'', ''5000''), (''X-RateLimit-Remaining'', ''abc'')],
             body_text = ''{\"data\":null}'', body_json = Inr (JObj [(''data'', JNull)])\<rparr>)
          ''query { viewer { login } }'' None \<lparr>attempted = [], log_lines = []\<rparr>) =
     Inr (''{\"errors\": [{\"message\": \"An unexpected error occurred: invalid literal for int() with base 10: ''
          @ [CHR 0x27] @ ''abc'' @ [CHR 0x27] @ ''\"}]}'')"
  by code_simp

text \<open>
  C4. The endpoint answers 200 with the body \<^verbatim>\<open>null\<close>, which decodes as JSON. The tool does not
  return \<^verbatim>\<open>null\<close>: the check \<^verbatim>\<open>"errors" in result\<close>, made for a log line, raises \<^verbatim>\<open>TypeError\<close>
  and the result is the unexpected-error one.
\<close>

theorem success_null_body_not_returned:
  "fst (github_execute_graphql (Some ''ghp_token'')
          (\<lambda>req. Responds \<lparr>status_code = 200, headers = [], body_text = ''null'',
             body_json = Inr JNull\<rparr>)
          ''query { viewer { login } }'' None \<lparr>attempted = [], log_lines = []\<rparr>) =
     Inr (''{\"errors\": [{\"message\": \"An unexpected error occurred: argument of type ''
          @ [CHR 0x27] @ ''NoneType'' @ [CHR 0x27] @ '' is not iterable\"}]}'')
   \<and> json_dumps JNull = ''null''"
  by code_simp

end
